theory Spec2Isabelle
  imports Complex_Main "HOL-Library.Product_Lexorder" "HOL-Library.List_Lexorder"
    "HOL-Library.Char_ord"
begin

section \<open>JavaScript numbers\<close>

text \<open>
  The handlers compute with JavaScript numbers. A number is modelled as an exact rational
  or one of the three special values; the rounding error of IEEE-754 doubles and the sign
  of zero are not modelled. Division follows the language: a finite nonzero value divided
  by zero is an infinity and \<open>0 / 0\<close> is \<open>NaN\<close>.
\<close>

datatype number = Number rat | NaN | Infinity | NegInfinity

definition num :: "nat \<Rightarrow> number" where
  "num n = Number (of_nat n)"

fun js_add :: "number \<Rightarrow> number \<Rightarrow> number" where
  "js_add (Number a) (Number b) = Number (a + b)"
| "js_add NaN _ = NaN"
| "js_add _ NaN = NaN"
| "js_add Infinity NegInfinity = NaN"
| "js_add NegInfinity Infinity = NaN"
| "js_add Infinity _ = Infinity"
| "js_add _ Infinity = Infinity"
| "js_add NegInfinity _ = NegInfinity"
| "js_add _ NegInfinity = NegInfinity"

fun js_mul :: "number \<Rightarrow> number \<Rightarrow> number" where
  "js_mul (Number a) (Number b) = Number (a * b)"
| "js_mul NaN _ = NaN"
| "js_mul _ NaN = NaN"
| "js_mul (Number a) Infinity = (if a = 0 then NaN else if 0 < a then Infinity else NegInfinity)"
| "js_mul (Number a) NegInfinity = (if a = 0 then NaN else if 0 < a then NegInfinity else Infinity)"
| "js_mul Infinity (Number b) = (if b = 0 then NaN else if 0 < b then Infinity else NegInfinity)"
| "js_mul NegInfinity (Number b) = (if b = 0 then NaN else if 0 < b then NegInfinity else Infinity)"
| "js_mul Infinity Infinity = Infinity"
| "js_mul NegInfinity NegInfinity = Infinity"
| "js_mul Infinity NegInfinity = NegInfinity"
| "js_mul NegInfinity Infinity = NegInfinity"

fun js_div :: "number \<Rightarrow> number \<Rightarrow> number" where
  "js_div (Number a) (Number b) =
     (if b = 0 then (if a = 0 then NaN else if 0 < a then Infinity else NegInfinity)
      else Number (a / b))"
| "js_div NaN _ = NaN"
| "js_div _ NaN = NaN"
| "js_div (Number a) Infinity = Number 0"
| "js_div (Number a) NegInfinity = Number 0"
| "js_div Infinity (Number b) = (if 0 \<le> b then Infinity else NegInfinity)"
| "js_div NegInfinity (Number b) = (if 0 \<le> b then NegInfinity else Infinity)"
| "js_div Infinity Infinity = NaN"
| "js_div NegInfinity NegInfinity = NaN"
| "js_div Infinity NegInfinity = NaN"
| "js_div NegInfinity Infinity = NaN"

text \<open>\<open>x > 0\<close>: every comparison with \<open>NaN\<close> is false.\<close>

fun js_gt0 :: "number \<Rightarrow> bool" where
  "js_gt0 (Number a) = (0 < a)"
| "js_gt0 Infinity = True"
| "js_gt0 _ = False"

text \<open>
  \<open>Math.round\<close> returns the nearest integer and, of two equally near integers, the one
  closer to plus infinity.
\<close>

fun Math_round :: "number \<Rightarrow> number" where
  "Math_round (Number a) = Number (of_int \<lfloor>a + 1 / 2\<rfloor>)"
| "Math_round x = x"

text \<open>
  Reading a property in an arithmetic context: a missing property is \<open>undefined\<close>, which
  converts to \<open>NaN\<close>.
\<close>

definition to_number :: "number option \<Rightarrow> number" where
  "to_number v = (case v of None \<Rightarrow> NaN | Some n \<Rightarrow> n)"

fun is_finite :: "number \<Rightarrow> bool" where
  "is_finite (Number a) = True"
| "is_finite _ = False"

section \<open>The Job model (models/Job.js)\<close>

datatype status = Applied | Interviewing | Offered | Rejected | Withdrawn

fun status_name :: "status \<Rightarrow> string" where
  "status_name Applied = ''applied''"
| "status_name Interviewing = ''interviewing''"
| "status_name Offered = ''offered''"
| "status_name Rejected = ''rejected''"
| "status_name Withdrawn = ''withdrawn''"

datatype interview_type = Phone | Video | Onsite | Technical | Behavioral

fun type_name :: "interview_type \<Rightarrow> string" where
  "type_name Phone = ''phone''"
| "type_name Video = ''video''"
| "type_name Onsite = ''onsite''"
| "type_name Technical = ''technical''"
| "type_name Behavioral = ''behavioral''"

datatype interview_outcome = Passed | Failed | Pending

fun outcome_name :: "interview_outcome \<Rightarrow> string" where
  "outcome_name Passed = ''passed''"
| "outcome_name Failed = ''failed''"
| "outcome_name Pending = ''pending''"

text \<open>
  Dates are milliseconds since the epoch, as a JavaScript \<open>Date\<close> and a BSON date hold
  them. Of the schema's fields the records keep those that the modelled routes read or
  write.
\<close>

record interview =
  i_date :: int
  i_type :: interview_type
  i_notes :: "string option"
  i_outcome :: interview_outcome

record job =
  job_id :: nat
  user :: nat
  company :: string
  location :: "string option"
  status :: status
  applicationDate :: int
  followUpDate :: "int option"
  interviewDates :: "interview list"

section \<open>The record store\<close>

text \<open>
  The collection is a list of documents. The store counts the queries it has executed, so
  that a handler that answers without querying leaves the counter as it found it.
\<close>

record db =
  jobs :: "job list"
  queries :: nat

definition aggregate :: "(job list \<Rightarrow> 'r) \<Rightarrow> db \<Rightarrow> 'r \<times> db" where
  "aggregate pipeline d = (pipeline (jobs d), d\<lparr>queries := Suc (queries d)\<rparr>)"

text \<open>
  \<open>$group\<close>: one output document per distinct key, holding the input documents with that
  key in their input order. The store leaves the order of the groups open; the model
  lists them in the order of each key's last document. \<open>$sort\<close> is modelled by the stable
  \<open>sort_key\<close>, so documents with equal sort keys keep that order, which the store leaves
  open as well; \<open>$limit\<close> is \<open>take\<close>.
\<close>

definition group_by :: "('a \<Rightarrow> 'k) \<Rightarrow> 'a list \<Rightarrow> ('k \<times> 'a list) list" where
  "group_by key xs = map (\<lambda>k. (k, filter (\<lambda>x. key x = k) xs)) (remdups (map key xs))"

text \<open>\<open>$match: { user: ObjectId(id) }\<close>\<close>

definition owned_by :: "nat \<Rightarrow> job list \<Rightarrow> job list" where
  "owned_by uid js = filter (\<lambda>j. user j = uid) js"

text \<open>
  The reducer \<open>(acc, status) => { acc[status] = (acc[status] || 0) + 1; return acc; }\<close>
  run from the empty object.
\<close>

definition count_step :: "('k \<rightharpoonup> nat) \<Rightarrow> 'k \<Rightarrow> ('k \<rightharpoonup> nat)" where
  "count_step acc s = acc(s \<mapsto> (case acc s of None \<Rightarrow> 0 | Some n \<Rightarrow> n) + 1)"

definition breakdown :: "'k list \<Rightarrow> ('k \<rightharpoonup> nat)" where
  "breakdown ss = foldl count_step Map.empty ss"

text \<open>
  A handler answers with its data, with the 400 response of a failed validation
  (\<open>{ success: false, message: 'Validation failed', errors }\<close>), or by throwing an error.
  Of a thrown error the global error handler of the server reads the message and the status
  code, 500 when the error has none; these two are what \<open>AppError\<close> keeps.
\<close>

datatype 'a response = Success 'a | ValidationFailed "string list" | AppError string nat

section \<open>GET /analytics/stats\<close>

definition getUserStats :: "nat \<Rightarrow> db \<Rightarrow> (status \<times> nat) list \<times> db" where
  "getUserStats userId =
     aggregate (\<lambda>js. map (\<lambda>(k, g). (k, length g)) (group_by status (owned_by userId js)))"

definition statsObj_init :: "string \<rightharpoonup> number" where
  "statsObj_init = [''total'' \<mapsto> num 0, ''applied'' \<mapsto> num 0, ''interviewing'' \<mapsto> num 0,
     ''offered'' \<mapsto> num 0, ''rejected'' \<mapsto> num 0, ''withdrawn'' \<mapsto> num 0]"

text \<open>\<open>statsObj[stat._id] = stat.count; statsObj.total += stat.count;\<close>\<close>

definition stats_step :: "(string \<rightharpoonup> number) \<Rightarrow> status \<times> nat \<Rightarrow> (string \<rightharpoonup> number)" where
  "stats_step statsObj stat =
     (let obj1 = statsObj(status_name (fst stat) \<mapsto> num (snd stat))
      in obj1(''total'' \<mapsto> js_add (to_number (obj1 ''total'')) (num (snd stat))))"

definition stats_handler :: "nat \<Rightarrow> db \<Rightarrow> (string \<rightharpoonup> number) response \<times> db" where
  "stats_handler uid d =
     (let (stats, d') = getUserStats uid d
      in (Success (foldl stats_step statsObj_init stats), d'))"

section \<open>Calendar arithmetic on dates\<close>

text \<open>
  The server's time zone is taken to be UTC, so that \<open>Date.getMonth\<close> and the store's
  \<open>$month\<close> read the same calendar. A time value splits into a day number and the time
  within the day; the proleptic Gregorian calendar turns day numbers into year, month (1 to
  12) and day of month, and back.
\<close>

definition msPerDay :: int where
  "msPerDay = 1000 * 60 * 60 * 24"

definition Day :: "int \<Rightarrow> int" where
  "Day t = t div msPerDay"

definition TimeWithinDay :: "int \<Rightarrow> int" where
  "TimeWithinDay t = t mod msPerDay"

definition civil_from_days :: "int \<Rightarrow> int \<times> int \<times> int" where
  "civil_from_days z0 =
     (let z = z0 + 719468;
          era = z div 146097;
          doe = z - era * 146097;
          yoe = (doe - doe div 1460 + doe div 36524 - doe div 146096) div 365;
          doy = doe - (365 * yoe + yoe div 4 - yoe div 100);
          mp = (5 * doy + 2) div 153;
          d = doy - (153 * mp + 2) div 5 + 1;
          m = (if mp < 10 then mp + 3 else mp - 9);
          y = yoe + era * 400
      in (if m \<le> 2 then y + 1 else y, m, d))"

definition days_from_civil :: "int \<Rightarrow> int \<Rightarrow> int \<Rightarrow> int" where
  "days_from_civil y0 m d =
     (let y = (if m \<le> 2 then y0 - 1 else y0);
          era = y div 400;
          yoe = y - era * 400;
          doy = (153 * (if 2 < m then m - 3 else m + 9) + 2) div 5 + d - 1;
          doe = yoe * 365 + yoe div 4 - yoe div 100 + doy
      in era * 146097 + doe - 719468)"

definition year_of :: "int \<Rightarrow> int" where
  "year_of t = fst (civil_from_days (Day t))"

definition month_of :: "int \<Rightarrow> int" where
  "month_of t = fst (snd (civil_from_days (Day t)))"

definition date_of :: "int \<Rightarrow> int" where
  "date_of t = snd (snd (civil_from_days (Day t)))"

text \<open>
  \<open>MakeDay(year, month, date)\<close> of the language: the month is counted from 0 and may lie
  outside 0 to 11, in which case it carries into the year; the date may lie outside the
  month, in which case it carries into the neighbouring months.
\<close>

definition MakeDay :: "int \<Rightarrow> int \<Rightarrow> int \<Rightarrow> int" where
  "MakeDay y m dt = days_from_civil (y + m div 12) (m mod 12 + 1) 1 + dt - 1"

definition MakeDate :: "int \<Rightarrow> int \<Rightarrow> int" where
  "MakeDate day time = day * msPerDay + time"

definition getFullYear :: "int \<Rightarrow> int" where
  "getFullYear t = year_of t"

definition getMonth :: "int \<Rightarrow> int" where
  "getMonth t = month_of t - 1"

definition getDate :: "int \<Rightarrow> int" where
  "getDate t = date_of t"

definition setMonth :: "int \<Rightarrow> int \<Rightarrow> int" where
  "setMonth t m = MakeDate (MakeDay (year_of t) m (date_of t)) (TimeWithinDay t)"

definition setDate :: "int \<Rightarrow> int \<Rightarrow> int" where
  "setDate t dt = MakeDate (MakeDay (year_of t) (getMonth t) dt) (TimeWithinDay t)"

definition setFullYear :: "int \<Rightarrow> int \<Rightarrow> int" where
  "setFullYear t y = MakeDate (MakeDay y (getMonth t) (date_of t)) (TimeWithinDay t)"

section \<open>Query parameters and their validation\<close>

text \<open>
  A query parameter is absent or a string. The validator \<open>isInt({ min, max })\<close> accepts a
  string of decimal digits with an optional sign whose value lies between the bounds;
  \<open>optional()\<close> skips the check when the parameter is absent.
\<close>

definition is_digit :: "char \<Rightarrow> bool" where
  "is_digit c = (c \<in> set ''0123456789'')"

definition digit_val :: "char \<Rightarrow> int" where
  "digit_val c = of_char c - 48"

definition digits_value :: "string \<Rightarrow> int" where
  "digits_value ds = foldl (\<lambda>a c. 10 * a + digit_val c) 0 ds"

definition unsigned_literal :: "string \<Rightarrow> int option" where
  "unsigned_literal ds = (if ds \<noteq> [] \<and> list_all is_digit ds then Some (digits_value ds) else None)"

fun int_literal :: "string \<Rightarrow> int option" where
  "int_literal [] = None"
| "int_literal (c # cs) =
     (if c = CHR ''-'' then map_option uminus (unsigned_literal cs)
      else if c = CHR ''+'' then unsigned_literal cs
      else unsigned_literal (c # cs))"

definition isInt :: "int \<Rightarrow> int \<Rightarrow> string \<Rightarrow> bool" where
  "isInt lo hi s = (case int_literal s of None \<Rightarrow> False | Some v \<Rightarrow> lo \<le> v \<and> v \<le> hi)"

definition validate_optional :: "(string \<Rightarrow> bool) \<Rightarrow> string \<Rightarrow> string option \<Rightarrow> string list" where
  "validate_optional valid msg q =
     (case q of None \<Rightarrow> [] | Some s \<Rightarrow> if valid s then [] else [msg])"

text \<open>
  \<open>parseInt\<close> skips leading white space, reads an optional sign and the longest run of
  decimal digits, and is \<open>NaN\<close> (here \<open>None\<close>) when there is no digit; so it is for an
  absent parameter. The hexadecimal prefix, which no validated string carries, is left
  out. \<open>parseInt(q) || dflt\<close> replaces \<open>NaN\<close> and 0 by the default.
\<close>

definition is_space :: "char \<Rightarrow> bool" where
  "is_space c = (c \<in> set [CHR '' '', CHR 0x09, CHR 0x0A, CHR 0x0B, CHR 0x0C, CHR 0x0D])"

definition parse_digits :: "string \<Rightarrow> int option" where
  "parse_digits s = (let ds = takeWhile is_digit s in if ds = [] then None else Some (digits_value ds))"

definition parseInt :: "string option \<Rightarrow> int option" where
  "parseInt q =
     (case q of None \<Rightarrow> None
      | Some s \<Rightarrow>
          (case dropWhile is_space s of
             [] \<Rightarrow> None
           | c # cs \<Rightarrow>
               if c = CHR ''-'' then map_option uminus (parse_digits cs)
               else if c = CHR ''+'' then parse_digits cs
               else parse_digits (c # cs)))"

definition or_default :: "int option \<Rightarrow> int \<Rightarrow> int" where
  "or_default v dflt = (case v of None \<Rightarrow> dflt | Some n \<Rightarrow> if n = 0 then dflt else n)"

section \<open>Formatting\<close>

definition digit_char :: "nat \<Rightarrow> char" where
  "digit_char d = ''0123456789'' ! d"

fun show_nat :: "nat \<Rightarrow> string" where
  "show_nat n = (if n < 10 then [digit_char n] else show_nat (n div 10) @ [digit_char (n mod 10)])"

definition toString :: "int \<Rightarrow> string" where
  "toString i = (if i < 0 then CHR ''-'' # show_nat (nat (- i)) else show_nat (nat i))"

definition padStart :: "nat \<Rightarrow> char \<Rightarrow> string \<Rightarrow> string" where
  "padStart n c s = replicate (n - length s) c @ s"

section \<open>Rates\<close>

text \<open>\<open>Math.round(x * 100) / 100\<close>\<close>

definition round2 :: "number \<Rightarrow> number" where
  "round2 x = js_div (Math_round (js_mul x (num 100))) (num 100)"

text \<open>\<open>Math.round((a / b) * 100 * 100) / 100\<close>\<close>

definition pct :: "number \<Rightarrow> number \<Rightarrow> number" where
  "pct a b = js_div (Math_round (js_mul (js_mul (js_div a b) (num 100)) (num 100))) (num 100)"

text \<open>
  The success rate of a group, as the companies and the locations view compute it:
  \<open>total > 0 ? (successful / total) * 100 : 0\<close> with \<open>successful\<close> the number of statuses
  that are \<open>offered\<close> or \<open>interviewing\<close>.
\<close>

definition successful :: "status list \<Rightarrow> nat" where
  "successful ss = length (filter (\<lambda>s. s \<in> set [Offered, Interviewing]) ss)"

definition successRate :: "nat \<Rightarrow> status list \<Rightarrow> number" where
  "successRate count ss =
     (if 0 < count then js_mul (js_div (num (successful ss)) (num count)) (num 100) else num 0)"

section \<open>GET /analytics/timeline\<close>

record 'k grouped =
  g_id :: 'k
  g_count :: nat
  g_statuses :: "status list"

definition timeline_pipeline :: "nat \<Rightarrow> int \<Rightarrow> job list \<Rightarrow> (int \<times> int) grouped list" where
  "timeline_pipeline uid startDate js =
     sort_key g_id
       (map (\<lambda>(k, g). \<lparr>g_id = k, g_count = length g, g_statuses = map status g\<rparr>)
         (group_by (\<lambda>j. (year_of (applicationDate j), month_of (applicationDate j)))
           (filter (\<lambda>j. user j = uid \<and> startDate \<le> applicationDate j) js)))"

record timeline_row =
  tl_period :: string
  tl_total :: nat
  tl_statuses :: "status \<rightharpoonup> nat"

definition format_timeline :: "(int \<times> int) grouped \<Rightarrow> timeline_row" where
  "format_timeline item =
     \<lparr>tl_period = toString (fst (g_id item)) @ ''-'' @ padStart 2 CHR ''0'' (toString (snd (g_id item))),
      tl_total = g_count item,
      tl_statuses = breakdown (g_statuses item)\<rparr>"

definition timeline_handler ::
    "int \<Rightarrow> nat \<Rightarrow> string option \<Rightarrow> db \<Rightarrow> timeline_row list response \<times> db" where
  "timeline_handler now uid months_q d =
     (let errors = validate_optional (isInt 1 24) ''Months must be between 1 and 24'' months_q
      in if errors \<noteq> [] then (ValidationFailed errors, d)
         else
           let months = or_default (parseInt months_q) 6;
               startDate = setMonth now (getMonth now - months);
               (timeline, d') = aggregate (timeline_pipeline uid startDate) d
           in (Success (map format_timeline timeline), d'))"

section \<open>GET /analytics/companies\<close>

record company_grouped =
  cg_id :: string
  cg_count :: nat
  cg_statuses :: "status list"
  cg_avg :: "rat option"

text \<open>\<open>$avg\<close> is null for a group without values.\<close>

definition avg :: "rat list \<Rightarrow> rat option" where
  "avg xs = (if xs = [] then None else Some (sum_list xs / of_nat (length xs)))"

definition companies_pipeline :: "int \<Rightarrow> nat \<Rightarrow> int \<Rightarrow> job list \<Rightarrow> company_grouped list" where
  "companies_pipeline now uid limit js =
     take (nat limit)
       (sort_key (\<lambda>g. - int (cg_count g))
         (map (\<lambda>(k, g). \<lparr>cg_id = k, cg_count = length g, cg_statuses = map status g,
                  cg_avg = avg (map (\<lambda>j. of_int (now - applicationDate j) / of_int msPerDay) g)\<rparr>)
           (group_by company (filter (\<lambda>j. user j = uid) js))))"

record company_row =
  c_company :: string
  c_totalApplications :: nat
  c_successRate :: number
  c_avgDaysSinceApplication :: number
  c_statusBreakdown :: "status \<rightharpoonup> nat"

text \<open>In a product, null converts to 0.\<close>

definition null_to_number :: "rat option \<Rightarrow> number" where
  "null_to_number v = (case v of None \<Rightarrow> Number 0 | Some a \<Rightarrow> Number a)"

definition company_with_rate :: "company_grouped \<Rightarrow> company_row" where
  "company_with_rate c =
     \<lparr>c_company = cg_id c,
      c_totalApplications = cg_count c,
      c_successRate = round2 (successRate (cg_count c) (cg_statuses c)),
      c_avgDaysSinceApplication = round2 (null_to_number (cg_avg c)),
      c_statusBreakdown = breakdown (cg_statuses c)\<rparr>"

definition companies_handler ::
    "int \<Rightarrow> nat \<Rightarrow> string option \<Rightarrow> db \<Rightarrow> company_row list response \<times> db" where
  "companies_handler now uid limit_q d =
     (let errors = validate_optional (isInt 1 50) ''Limit must be between 1 and 50'' limit_q
      in if errors \<noteq> [] then (ValidationFailed errors, d)
         else
           let limit = or_default (parseInt limit_q) 10;
               (companies, d') = aggregate (companies_pipeline now uid limit) d
           in (Success (map company_with_rate companies), d'))"

section \<open>GET /analytics/locations\<close>

text \<open>
  \<open>location: { $exists: true, $ne: '' }\<close>: the field is there and is not the empty
  string.
\<close>

definition locations_pipeline :: "nat \<Rightarrow> job list \<Rightarrow> (string option) grouped list" where
  "locations_pipeline uid js =
     sort_key (\<lambda>g. - int (g_count g))
       (map (\<lambda>(k, g). \<lparr>g_id = k, g_count = length g, g_statuses = map status g\<rparr>)
         (group_by location
           (filter (\<lambda>j. user j = uid \<and> location j \<noteq> None \<and> location j \<noteq> Some []) js)))"

record location_row =
  l_location :: "string option"
  l_totalApplications :: nat
  l_successRate :: number
  l_statusBreakdown :: "status \<rightharpoonup> nat"

definition location_with_rate :: "(string option) grouped \<Rightarrow> location_row" where
  "location_with_rate l =
     \<lparr>l_location = g_id l,
      l_totalApplications = g_count l,
      l_successRate = round2 (successRate (g_count l) (g_statuses l)),
      l_statusBreakdown = breakdown (g_statuses l)\<rparr>"

definition locations_handler :: "nat \<Rightarrow> db \<Rightarrow> location_row list response \<times> db" where
  "locations_handler uid d =
     (let (locations, d') = aggregate (locations_pipeline uid) d
      in (Success (map location_with_rate locations), d'))"

section \<open>GET /analytics/interviews\<close>

text \<open>
  The pipeline keeps the user's records that have a first interview entry, unwinds the
  entries, counts them per type and outcome, and sorts by the two names.
\<close>

definition interviews_pipeline ::
    "nat \<Rightarrow> job list \<Rightarrow> ((interview_type \<times> interview_outcome) \<times> nat) list" where
  "interviews_pipeline uid js =
     sort_key (\<lambda>(k, c). (type_name (fst k), outcome_name (snd k)))
       (map (\<lambda>(k, g). (k, length g))
         (group_by (\<lambda>i. (i_type i, i_outcome i))
           (concat (map interviewDates
             (filter (\<lambda>j. user j = uid \<and> interviewDates j \<noteq> []) js)))))"

definition perf_init :: "string \<rightharpoonup> number" where
  "perf_init = [''total'' \<mapsto> num 0, ''passed'' \<mapsto> num 0, ''failed'' \<mapsto> num 0, ''pending'' \<mapsto> num 0]"

text \<open>
  The body of the first loop: create the type's entry when there is none, add the count to
  its total and store the count under the outcome's name.
\<close>

definition perf_step ::
    "(interview_type \<rightharpoonup> (string \<rightharpoonup> number)) \<Rightarrow> (interview_type \<times> interview_outcome) \<times> nat
      \<Rightarrow> (interview_type \<rightharpoonup> (string \<rightharpoonup> number))" where
  "perf_step ip iv =
     (let ty = fst (fst iv); outcome = snd (fst iv);
          e = (case ip ty of None \<Rightarrow> perf_init | Some e \<Rightarrow> e);
          e1 = e(''total'' \<mapsto> js_add (to_number (e ''total'')) (num (snd iv)));
          e2 = e1(outcome_name outcome \<mapsto> num (snd iv))
      in ip(ty \<mapsto> e2))"

text \<open>The body of the second loop, which adds \<open>successRate\<close> to each entry.\<close>

definition with_successRate :: "(string \<rightharpoonup> number) \<Rightarrow> (string \<rightharpoonup> number)" where
  "with_successRate stats =
     stats(''successRate'' \<mapsto>
       (if js_gt0 (to_number (stats ''total''))
        then pct (to_number (stats ''passed'')) (to_number (stats ''total''))
        else num 0))"

definition interviewPerformance ::
    "((interview_type \<times> interview_outcome) \<times> nat) list \<Rightarrow> (interview_type \<rightharpoonup> (string \<rightharpoonup> number))" where
  "interviewPerformance interviews =
     (\<lambda>ty. map_option with_successRate (foldl perf_step Map.empty interviews ty))"

definition interviews_handler ::
    "nat \<Rightarrow> db \<Rightarrow> (interview_type \<rightharpoonup> (string \<rightharpoonup> number)) response \<times> db" where
  "interviews_handler uid d =
     (let (interviews, d') = aggregate (interviews_pipeline uid) d
      in (Success (interviewPerformance interviews), d'))"

section \<open>GET /analytics/trends\<close>

text \<open>
  The grouping key is a date operator of the store applied to the application date. What
  the store computes for an operator is a parameter \<open>dateExpr\<close> of the model.
\<close>

datatype date_op = Week | Month | Quarter | Year

definition period_switch :: "int \<Rightarrow> string \<Rightarrow> (date_op \<times> int) option" where
  "period_switch now period =
     (if period = ''week'' then Some (Week, setDate now (getDate now - 7))
      else if period = ''month'' then Some (Month, setMonth now (getMonth now - 1))
      else if period = ''quarter'' then Some (Quarter, setMonth now (getMonth now - 3))
      else if period = ''year'' then Some (Year, setFullYear now (getFullYear now - 1))
      else None)"

definition trends_pipeline ::
    "(date_op \<Rightarrow> int \<Rightarrow> int) \<Rightarrow> nat \<Rightarrow> date_op \<Rightarrow> int \<Rightarrow> job list \<Rightarrow> int grouped list" where
  "trends_pipeline dateExpr uid dateFormat startDate js =
     sort_key g_id
       (map (\<lambda>(k, g). \<lparr>g_id = k, g_count = length g, g_statuses = map status g\<rparr>)
         (group_by (\<lambda>j. dateExpr dateFormat (applicationDate j))
           (filter (\<lambda>j. user j = uid \<and> startDate \<le> applicationDate j) js)))"

record trend_row =
  t_period :: int
  t_totalApplications :: nat
  t_applied :: nat
  t_interviewing :: nat
  t_offered :: nat
  t_applicationToInterviewRate :: number
  t_interviewToOfferRate :: number
  t_overallSuccessRate :: number

definition trend_with_conversion :: "int grouped \<Rightarrow> trend_row" where
  "trend_with_conversion trend =
     (let count = g_count trend;
          applied = length (filter (\<lambda>s. s = Applied) (g_statuses trend));
          interviewing = length (filter (\<lambda>s. s = Interviewing) (g_statuses trend));
          offered = length (filter (\<lambda>s. s = Offered) (g_statuses trend))
      in \<lparr>t_period = g_id trend,
          t_totalApplications = count,
          t_applied = applied,
          t_interviewing = interviewing,
          t_offered = offered,
          t_applicationToInterviewRate = (if 0 < count then pct (num interviewing) (num count) else num 0),
          t_interviewToOfferRate = (if 0 < interviewing then pct (num offered) (num interviewing) else num 0),
          t_overallSuccessRate = (if 0 < count then pct (num offered) (num count) else num 0)\<rparr>)"

text \<open>
  Past the validation the period is one of the four names, so the switch always takes a
  case; the model answers the other strings, which never reach the switch, with a server
  error.
\<close>

definition trends_handler ::
    "int \<Rightarrow> (date_op \<Rightarrow> int \<Rightarrow> int) \<Rightarrow> nat \<Rightarrow> string option \<Rightarrow> db
      \<Rightarrow> (string \<times> trend_row list) response \<times> db" where
  "trends_handler now dateExpr uid period_q d =
     (let errors = validate_optional (\<lambda>s. s \<in> set [''week'', ''month'', ''quarter'', ''year''])
                     ''Period must be week, month, quarter, or year'' period_q
      in if errors \<noteq> [] then (ValidationFailed errors, d)
         else
           let period = (case period_q of None \<Rightarrow> ''month'' | Some p \<Rightarrow> if p = [] then ''month'' else p)
           in case period_switch now period of
                None \<Rightarrow> (AppError ''Internal Server Error'' 500, d)
              | Some (dateFormat, startDate) \<Rightarrow>
                  let (trends, d') = aggregate (trends_pipeline dateExpr uid dateFormat startDate) d
                  in (Success (period, map trend_with_conversion trends), d'))"

section \<open>POST /jobs/:id/interviews\<close>

text \<open>
  The body fields arrive as strings or are absent. Whether a string is an ISO 8601 date
  (the validator \<open>isISO8601\<close>) and which date the model layer casts it to (\<open>toDate\<close>,
  \<open>None\<close> when the cast fails) are parameters. A field that a validation chain does not
  mark optional is checked also when it is absent, and fails.
\<close>

record interview_body =
  b_date :: "string option"
  b_type :: "string option"
  b_notes :: "string option"
  b_outcome :: "string option"

definition validate_required :: "(string \<Rightarrow> bool) \<Rightarrow> string \<Rightarrow> string option \<Rightarrow> string list" where
  "validate_required valid msg q =
     (case q of None \<Rightarrow> [msg] | Some s \<Rightarrow> if valid s then [] else [msg])"

definition trim :: "string \<Rightarrow> string" where
  "trim s = rev (dropWhile is_space (rev (dropWhile is_space s)))"

definition validate_interview :: "(string \<Rightarrow> bool) \<Rightarrow> interview_body \<Rightarrow> string list" where
  "validate_interview isISO8601 body =
     validate_required isISO8601 ''Valid interview date is required'' (b_date body) @
     validate_required (\<lambda>s. s \<in> set [''phone'', ''video'', ''onsite'', ''technical'', ''behavioral''])
       ''Valid interview type is required'' (b_type body) @
     validate_optional (\<lambda>s. length (trim s) \<le> 500) ''Invalid value'' (b_notes body) @
     validate_optional (\<lambda>s. s \<in> set [''passed'', ''failed'', ''pending'']) ''Invalid value''
       (b_outcome body)"

definition type_of_name :: "string \<Rightarrow> interview_type option" where
  "type_of_name s =
     (if s = ''phone'' then Some Phone else if s = ''video'' then Some Video
      else if s = ''onsite'' then Some Onsite else if s = ''technical'' then Some Technical
      else if s = ''behavioral'' then Some Behavioral else None)"

definition outcome_of_name :: "string \<Rightarrow> interview_outcome option" where
  "outcome_of_name s =
     (if s = ''passed'' then Some Passed else if s = ''failed'' then Some Failed
      else if s = ''pending'' then Some Pending else None)"

text \<open>
  The entry \<open>{ date, type, notes, outcome: outcome || 'pending' }\<close> as the schema casts
  it; \<open>None\<close> when a field does not cast, in which case saving is refused.
\<close>

definition new_interview :: "(string \<Rightarrow> int option) \<Rightarrow> interview_body \<Rightarrow> interview option" where
  "new_interview toDate body =
     (case b_date body of None \<Rightarrow> None
      | Some ds \<Rightarrow>
     (case toDate ds of None \<Rightarrow> None
      | Some dt \<Rightarrow>
     (case b_type body of None \<Rightarrow> None
      | Some ts \<Rightarrow>
     (case type_of_name ts of None \<Rightarrow> None
      | Some ty \<Rightarrow>
     (case outcome_of_name (case b_outcome body of None \<Rightarrow> ''pending''
                             | Some s \<Rightarrow> if s = [] then ''pending'' else s) of
        None \<Rightarrow> None
      | Some oc \<Rightarrow>
          Some \<lparr>i_date = dt, i_type = ty, i_notes = map_option trim (b_notes body),
                i_outcome = oc\<rparr>)))))"

text \<open>The pre-save middleware of the schema.\<close>

definition pre_save :: "int \<Rightarrow> job \<Rightarrow> job" where
  "pre_save now j =
     (if status j = Interviewing \<and> followUpDate j = None
      then j\<lparr>followUpDate := Some (now + 7 * 24 * 60 * 60 * 1000)\<rparr> else j)"

text \<open>Writing a document back replaces the stored document that has its id.\<close>

fun save_doc :: "job \<Rightarrow> job list \<Rightarrow> job list" where
  "save_doc j [] = []"
| "save_doc j (x # xs) = (if job_id x = job_id j then j # xs else x # save_doc j xs)"

definition add_interview_handler ::
    "(string \<Rightarrow> bool) \<Rightarrow> (string \<Rightarrow> int option) \<Rightarrow> int \<Rightarrow> nat \<Rightarrow> nat \<Rightarrow> interview_body \<Rightarrow> db
      \<Rightarrow> job response \<times> db" where
  "add_interview_handler isISO8601 toDate now uid jid body d =
     (let errors = validate_interview isISO8601 body
      in if errors \<noteq> [] then (ValidationFailed errors, d)
         else
           let d1 = d\<lparr>queries := Suc (queries d)\<rparr>
           in case find (\<lambda>j. job_id j = jid) (jobs d) of
                None \<Rightarrow> (AppError ''Job not found'' 404, d1)
              | Some job \<Rightarrow>
                  if user job \<noteq> uid then (AppError ''Not authorized to update this job'' 403, d1)
                  else
                    (case new_interview toDate body of
                       None \<Rightarrow> (AppError ''Job validation failed'' 500, d1)
                     | Some iv \<Rightarrow>
                         let job1 = job\<lparr>interviewDates := interviewDates job @ [iv]\<rparr>;
                             job2 = (if status job1 = Applied then job1\<lparr>status := Interviewing\<rparr>
                                     else job1);
                             job3 = pre_save now job2
                         in (Success job3, d1\<lparr>jobs := save_doc job3 (jobs d)\<rparr>)))"

section \<open>Well-formed requests\<close>

text \<open>A query parameter passes its \<open>optional()\<close> check when it is absent or valid.\<close>

definition param_ok :: "(string \<Rightarrow> bool) \<Rightarrow> string option \<Rightarrow> bool" where
  "param_ok valid q = (case q of None \<Rightarrow> True | Some s \<Rightarrow> valid s)"

definition period_names :: "string list" where
  "period_names = [''week'', ''month'', ''quarter'', ''year'']"


section \<open>Rounding and rates as the specification words them\<close>


definition round_half_up_2 :: "rat \<Rightarrow> rat" where
  "round_half_up_2 x = of_int \<lfloor>x * 100 + 1 / 2\<rfloor> / 100"

text \<open>The percentage \<open>100 \<times> part / whole\<close>.\<close>

definition percent :: "nat \<Rightarrow> nat \<Rightarrow> rat" where
  "percent part whole = 100 * of_nat part / of_nat whole"





text \<open>
  The interview entries of a user's records, one unit each, those of one type, and those
  of one type and outcome.
\<close>

definition interview_entries :: "nat \<Rightarrow> job list \<Rightarrow> interview list" where
  "interview_entries uid js = concat (map interviewDates (owned_by uid js))"

definition entries_of_type :: "interview_type \<Rightarrow> interview list \<Rightarrow> interview list" where
  "entries_of_type ty es = filter (\<lambda>i. i_type i = ty) es"

definition entries_with :: "interview_type \<Rightarrow> interview_outcome \<Rightarrow> interview list \<Rightarrow> interview list" where
  "entries_with ty oc es = filter (\<lambda>i. i_type i = ty \<and> i_outcome i = oc) es"

text \<open>An entry of the interview performance object before the rate is added.\<close>

definition perf_entry :: "nat \<Rightarrow> nat \<Rightarrow> nat \<Rightarrow> nat \<Rightarrow> (string \<rightharpoonup> number)" where
  "perf_entry t p f pe =
     [''total'' \<mapsto> num t, ''passed'' \<mapsto> num p, ''failed'' \<mapsto> num f, ''pending'' \<mapsto> num pe]"

text \<open>
  The count that a grouped result lists under a pair of keys, 0 when the pair is not
  listed.
\<close>

definition cntf :: "(('a \<times> 'b) \<times> nat) list \<Rightarrow> 'a \<Rightarrow> 'b \<Rightarrow> nat" where
  "cntf ivs ty oc = (case map_of ivs (ty, oc) of None \<Rightarrow> 0 | Some c \<Rightarrow> c)"







section \<open>Example data\<close>

definition ex_interview :: interview where
  "ex_interview = \<lparr>i_date = 0, i_type = Phone, i_notes = None, i_outcome = Pending\<rparr>"

definition ex_body :: interview_body where
  "ex_body = \<lparr>b_date = Some ''2024-05-01'', b_type = Some ''phone'', b_notes = None, b_outcome = None\<rparr>"

definition ex_job :: job where
  "ex_job = \<lparr>job_id = 1, user = 7, company = ''Acme'', location = Some ''Kigali'', status = Applied,
     applicationDate = 10800000, followUpDate = None, interviewDates = []\<rparr>"

definition ex_db :: db where
  "ex_db = \<lparr>jobs = [ex_job], queries = 0\<rparr>"

definition ex_other_job :: job where
  "ex_other_job = \<lparr>job_id = 2, user = 8, company = ''Initech'', location = None, status = Offered,
     applicationDate = 0, followUpDate = None, interviewDates = [ex_interview]\<rparr>"

definition ex_db2 :: db where
  "ex_db2 = \<lparr>jobs = [ex_other_job, ex_job], queries = 3\<rparr>"

definition ex_empty_company :: company_grouped where
  "ex_empty_company = \<lparr>cg_id = ''Acme'', cg_count = 0, cg_statuses = [], cg_avg = None\<rparr>"

definition ex_empty_group :: "'k \<Rightarrow> 'k grouped" where
  "ex_empty_group k = \<lparr>g_id = k, g_count = 0, g_statuses = []\<rparr>"

text \<open>Three records with the statuses applied, interviewing and offered.\<close>

definition ex_three :: db where
  "ex_three = \<lparr>jobs = [ex_job, ex_job\<lparr>job_id := 3, status := Interviewing\<rparr>,
                        ex_job\<lparr>job_id := 4, status := Offered\<rparr>], queries = 0\<rparr>"

text \<open>Two records at one company, offered and rejected.\<close>

definition ex_acme :: db where
  "ex_acme = \<lparr>jobs = [ex_job\<lparr>status := Offered\<rparr>, ex_job\<lparr>job_id := 3, status := Rejected\<rparr>],
               queries = 0\<rparr>"

text \<open>A record with three phone interviews: passed, passed and pending.\<close>

definition ex_phone :: db where
  "ex_phone = \<lparr>jobs = [ex_job\<lparr>interviewDates :=
       [ex_interview\<lparr>i_outcome := Passed\<rparr>, ex_interview\<lparr>i_outcome := Passed\<rparr>, ex_interview]\<rparr>],
     queries = 0\<rparr>"

text \<open>Reading a response.\<close>

fun data_of :: "'a response \<Rightarrow> 'a option" where
  "data_of (Success x) = Some x"
| "data_of _ = None"

definition fields_of :: "(string \<rightharpoonup> number) option \<Rightarrow> string list \<Rightarrow> number option list" where
  "fields_of obj ks = (case obj of None \<Rightarrow> [] | Some e \<Rightarrow> map e ks)"

section \<open>Properties of grouping\<close>

lemma group_keys_distinct: "distinct (map fst (group_by key xs))"
  by (simp add: group_by_def comp_def)

lemma group_keys_set: "fst ` set (group_by key xs) = key ` set xs"
  by (auto simp: group_by_def image_iff)





section \<open>Properties of the stats view\<close>

lemma status_name_inj: "status_name s = status_name k \<longleftrightarrow> s = k"
  by (cases s; cases k) simp_all

lemma status_name_not_total: "status_name s \<noteq> ''total''"
  by (cases s) simp_all

lemma status_name_in_dom: "status_name s \<in> dom statsObj_init"
  by (cases s) (simp_all add: statsObj_init_def)

lemma total_in_dom: "''total'' \<in> dom statsObj_init"
  by (simp add: statsObj_init_def)

lemma stats_fold:
  assumes "distinct (map fst stats)"
    and "obj ''total'' = Some (Number t)"
    and "dom obj = dom statsObj_init"
  shows "dom (foldl stats_step obj stats) = dom statsObj_init \<and>
     foldl stats_step obj stats ''total'' = Some (Number (t + of_nat (sum_list (map snd stats)))) \<and>
     (\<forall>s. foldl stats_step obj stats (status_name s) =
        (case map_of stats s of None \<Rightarrow> obj (status_name s) | Some c \<Rightarrow> Some (num c)))"
  using assms
proof (induction stats arbitrary: obj t)
  case Nil
  then show ?case by simp
next
  case (Cons st stats)
  obtain k c where st: "st = (k, c)" by (cases st)
  let ?obj = "stats_step obj st"
  have tot: "?obj ''total'' = Some (Number (t + of_nat c))"
    using Cons.prems(2) status_name_not_total[of k]
    by (simp add: st stats_step_def to_number_def num_def Let_def)
  have "dom ?obj = insert ''total'' (insert (status_name k) (dom obj))"
    by (simp add: st stats_step_def Let_def)
  then have dm: "dom ?obj = dom statsObj_init"
    using Cons.prems(3) status_name_in_dom[of k] total_in_dom by (simp add: insert_absorb)
  have d: "distinct (map fst stats)" using Cons.prems(1) by simp
  note IH = Cons.IH[OF d tot dm]
  have key: "?obj (status_name s) = (if s = k then Some (num c) else obj (status_name s))" for s
    using status_name_not_total[of s] by (simp add: st stats_step_def Let_def status_name_inj)
  have notin: "map_of stats k = None"
    using Cons.prems(1) by (simp add: st map_of_eq_None_iff)
  have 1: "dom (foldl stats_step obj (st # stats)) = dom statsObj_init"
    using IH by simp
  have 2: "foldl stats_step obj (st # stats) ''total'' =
      Some (Number (t + of_nat (sum_list (map snd (st # stats)))))"
    using IH by (simp add: st add.assoc)
  have 3: "foldl stats_step obj (st # stats) (status_name s) =
        (case map_of (st # stats) s of None \<Rightarrow> obj (status_name s) | Some c \<Rightarrow> Some (num c))" for s
  proof (cases "s = k")
    case True
    have "foldl stats_step ?obj stats (status_name k) = ?obj (status_name k)"
      using IH notin by simp
    then show ?thesis using key[of k] by (simp add: True st)
  next
    case False
    then show ?thesis using IH key[of s] by (simp add: st cong: option.case_cong)
  qed
  show ?case using 1 2 3 by blast
qed


lemma map_of_group_counts:
  "map_of (map (\<lambda>(k, g). (k, length g)) (group_by key xs)) s =
     (if s \<in> key ` set xs then Some (length (filter (\<lambda>x. key x = s) xs)) else None)"
proof -
  have "map (\<lambda>(k, g). (k, length g)) (group_by key xs) =
      map (\<lambda>k. (k, length (filter (\<lambda>x. key x = k) xs))) (remdups (map key xs))"
    by (simp add: group_by_def comp_def)
  then show ?thesis
    by (simp add: map_of_map_restrict restrict_map_def comp_def)
qed

lemma fst_group_counts:
  "map fst (map (\<lambda>(k, g). (k, length g)) (group_by key xs)) = map fst (group_by key xs)"
  by (simp add: comp_def case_prod_unfold)



lemma dom_statsObj_init:
  "dom statsObj_init = {''total'', ''applied'', ''interviewing'', ''offered'', ''rejected'', ''withdrawn''}"
  by (auto simp: statsObj_init_def)

lemma statsObj_init_status: "statsObj_init (status_name s) = Some (num 0)"
  by (cases s) (simp_all add: statsObj_init_def)



section \<open>Responses, scoping and the empty user\<close>




lemma validate_optional_ok: "param_ok valid q \<Longrightarrow> validate_optional valid msg q = []"
  by (auto simp: param_ok_def validate_optional_def split: option.splits)

lemma validate_optional_bad: "\<not> valid s \<Longrightarrow> validate_optional valid msg (Some s) = [msg]"
  by (simp add: validate_optional_def)



lemma stats_response: "fst (stats_handler uid d) =
   Success (foldl stats_step statsObj_init
      (map (\<lambda>(k, g). (k, length g)) (group_by status (owned_by uid (jobs d)))))"
  by (simp add: stats_handler_def getUserStats_def aggregate_def)

lemma timeline_response:
  "param_ok (isInt 1 24) months_q \<Longrightarrow> timeline_handler now uid months_q d =
    (Success (map format_timeline (timeline_pipeline uid
        (setMonth now (getMonth now - or_default (parseInt months_q) 6)) (jobs d))),
     d\<lparr>queries := Suc (queries d)\<rparr>)"
  by (simp add: timeline_handler_def validate_optional_ok aggregate_def Let_def)

lemma companies_response:
  "param_ok (isInt 1 50) limit_q \<Longrightarrow> companies_handler now uid limit_q d =
    (Success (map company_with_rate (companies_pipeline now uid (or_default (parseInt limit_q) 10) (jobs d))),
     d\<lparr>queries := Suc (queries d)\<rparr>)"
  by (simp add: companies_handler_def validate_optional_ok aggregate_def Let_def)

lemma locations_response:
  "locations_handler uid d =
    (Success (map location_with_rate (locations_pipeline uid (jobs d))), d\<lparr>queries := Suc (queries d)\<rparr>)"
  by (simp add: locations_handler_def aggregate_def)

lemma interviews_response:
  "interviews_handler uid d =
    (Success (interviewPerformance (interviews_pipeline uid (jobs d))), d\<lparr>queries := Suc (queries d)\<rparr>)"
  by (simp add: interviews_handler_def aggregate_def)


lemma pipelines_scoped:
  "timeline_pipeline uid sd js = timeline_pipeline uid sd (owned_by uid js)"
  "companies_pipeline now uid lmt js = companies_pipeline now uid lmt (owned_by uid js)"
  "locations_pipeline uid js = locations_pipeline uid (owned_by uid js)"
  "interviews_pipeline uid js = interviews_pipeline uid (owned_by uid js)"
  "trends_pipeline dateExpr uid df sd js = trends_pipeline dateExpr uid df sd (owned_by uid js)"
  by (simp_all add: timeline_pipeline_def companies_pipeline_def locations_pipeline_def
      interviews_pipeline_def trends_pipeline_def owned_by_def)

lemma timeline_scoped:
  assumes "owned_by uid (jobs d1) = owned_by uid (jobs d2)"
  shows "fst (timeline_handler now uid months_q d1) = fst (timeline_handler now uid months_q d2)"
proof -
  have "timeline_pipeline uid sd (jobs d1) = timeline_pipeline uid sd (jobs d2)" for sd
    using assms pipelines_scoped(1)[of uid sd "jobs d1"] pipelines_scoped(1)[of uid sd "jobs d2"]
    by simp
  then show ?thesis
    by (simp add: timeline_handler_def aggregate_def Let_def)
qed

lemma companies_scoped:
  assumes "owned_by uid (jobs d1) = owned_by uid (jobs d2)"
  shows "fst (companies_handler now uid limit_q d1) = fst (companies_handler now uid limit_q d2)"
proof -
  have "companies_pipeline now uid lmt (jobs d1) = companies_pipeline now uid lmt (jobs d2)" for lmt
    using assms pipelines_scoped(2)[of now uid lmt "jobs d1"] pipelines_scoped(2)[of now uid lmt "jobs d2"]
    by simp
  then show ?thesis
    by (simp add: companies_handler_def aggregate_def Let_def)
qed

lemma locations_scoped:
  assumes "owned_by uid (jobs d1) = owned_by uid (jobs d2)"
  shows "fst (locations_handler uid d1) = fst (locations_handler uid d2)"
  using assms pipelines_scoped(3)[of uid "jobs d1"] pipelines_scoped(3)[of uid "jobs d2"]
  by (simp add: locations_response)

lemma interviews_scoped:
  assumes "owned_by uid (jobs d1) = owned_by uid (jobs d2)"
  shows "fst (interviews_handler uid d1) = fst (interviews_handler uid d2)"
  using assms pipelines_scoped(4)[of uid "jobs d1"] pipelines_scoped(4)[of uid "jobs d2"]
  by (simp add: interviews_response)

lemma trends_scoped:
  assumes "owned_by uid (jobs d1) = owned_by uid (jobs d2)"
  shows "fst (trends_handler now dateExpr uid period_q d1) = fst (trends_handler now dateExpr uid period_q d2)"
proof -
  have "trends_pipeline dateExpr uid df sd (jobs d1) = trends_pipeline dateExpr uid df sd (jobs d2)" for df sd
    using assms pipelines_scoped(5)[of dateExpr uid df sd "jobs d1"]
      pipelines_scoped(5)[of dateExpr uid df sd "jobs d2"]
    by simp
  then show ?thesis
    by (simp add: trends_handler_def aggregate_def Let_def split: option.splits prod.splits)
qed

text \<open>
  C1. Every analytics endpoint answers a user from that user's records alone: two stores
  that hold the same records of the requesting user, whatever they hold of other users,
  get the same response from stats, timeline, companies, locations, interviews and trends.
\<close>

theorem analytics_scoped_to_user:
  assumes "owned_by uid (jobs d1) = owned_by uid (jobs d2)"
  shows "fst (stats_handler uid d1) = fst (stats_handler uid d2) \<and>
         fst (timeline_handler now uid months_q d1) = fst (timeline_handler now uid months_q d2) \<and>
         fst (companies_handler now uid limit_q d1) = fst (companies_handler now uid limit_q d2) \<and>
         fst (locations_handler uid d1) = fst (locations_handler uid d2) \<and>
         fst (interviews_handler uid d1) = fst (interviews_handler uid d2) \<and>
         fst (trends_handler now dateExpr uid period_q d1) = fst (trends_handler now dateExpr uid period_q d2)"
  using assms timeline_scoped[OF assms] companies_scoped[OF assms] locations_scoped[OF assms]
    interviews_scoped[OF assms] trends_scoped[OF assms]
  by (simp add: stats_response)

theorem analytics_scoped_to_user_witness:
  "owned_by 7 (jobs ex_db) = owned_by 7 (jobs ex_db2) \<and>
   (fst (stats_handler 7 ex_db) = fst (stats_handler 7 ex_db2) \<and>
    fst (timeline_handler 0 7 None ex_db) = fst (timeline_handler 0 7 None ex_db2) \<and>
    fst (companies_handler 0 7 None ex_db) = fst (companies_handler 0 7 None ex_db2) \<and>
    fst (locations_handler 7 ex_db) = fst (locations_handler 7 ex_db2) \<and>
    fst (interviews_handler 7 ex_db) = fst (interviews_handler 7 ex_db2) \<and>
    fst (trends_handler 0 (\<lambda>dateFormat. month_of) 7 None ex_db) =
      fst (trends_handler 0 (\<lambda>dateFormat. month_of) 7 None ex_db2))"
proof -
  have h: "owned_by 7 (jobs ex_db) = owned_by 7 (jobs ex_db2)"
    by (simp add: owned_by_def ex_db_def ex_db2_def ex_job_def ex_other_job_def)
  show ?thesis
    by (rule conjI[OF h analytics_scoped_to_user[OF h]])
qed




section \<open>Parameter validation\<close>

declare show_nat.simps [simp del]

lemma digit_cases: "d < 10 \<Longrightarrow> d = 0 \<or> d = 1 \<or> d = 2 \<or> d = 3 \<or> d = 4 \<or> d = 5 \<or> d = 6 \<or> d = 7 \<or> d = 8 \<or> d = (9::nat)"
  by arith

lemma digit_char_props:
  assumes "d < 10"
  shows "is_digit (digit_char d) \<and> digit_val (digit_char d) = int d \<and> \<not> is_space (digit_char d)
     \<and> digit_char d \<noteq> CHR ''-'' \<and> digit_char d \<noteq> CHR ''+''"
  using digit_cases[OF assms]
  by (elim disjE) (simp_all add: digit_char_def is_digit_def digit_val_def is_space_def)

lemma digits_value_snoc: "digits_value (ds @ [c]) = 10 * digits_value ds + digit_val c"
  by (simp add: digits_value_def)

lemma show_nat_digits:
  "show_nat n \<noteq> [] \<and> list_all is_digit (show_nat n) \<and> digits_value (show_nat n) = int n"
proof (induction n rule: show_nat.induct)
  case (1 n)
  show ?case
  proof (cases "n < 10")
    case True
    then have "show_nat n = [digit_char n]" by (subst show_nat.simps) simp
    then show ?thesis using digit_char_props[OF True] by (simp add: digits_value_def)
  next
    case False
    then have eq: "show_nat n = show_nat (n div 10) @ [digit_char (n mod 10)]"
      by (subst show_nat.simps) simp
    have m: "n mod 10 < 10" by simp
    have ar: "10 * int (n div 10) + int (n mod 10) = int n"
      by presburger
    show ?thesis using 1[OF False] digit_char_props[OF m] ar
      by (simp add: eq digits_value_snoc)
  qed
qed

lemma unsigned_literal_show_nat: "unsigned_literal (show_nat n) = Some (int n)"
  using show_nat_digits[of n] by (simp add: unsigned_literal_def)

lemma is_digit_not_sign: "is_digit c \<Longrightarrow> c \<noteq> CHR ''-'' \<and> c \<noteq> CHR ''+'' \<and> \<not> is_space c"
  by (auto simp: is_digit_def is_space_def)

lemma int_literal_digits:
  assumes "ds \<noteq> []" "list_all is_digit ds"
  shows "int_literal ds = unsigned_literal ds"
proof -
  obtain c cs where ds: "ds = c # cs" using assms(1) by (cases ds) auto
  then have "is_digit c" using assms(2) by simp
  then show ?thesis using is_digit_not_sign[of c] by (simp add: ds)
qed

lemma int_literal_toString: "int_literal (toString n) = Some n"
proof (cases "n < 0")
  case True
  then show ?thesis by (simp add: toString_def unsigned_literal_show_nat)
next
  case False
  then show ?thesis
    using show_nat_digits[of "nat n"]
    by (simp add: toString_def int_literal_digits unsigned_literal_show_nat)
qed

lemma isInt_toString: "isInt lo hi (toString n) \<longleftrightarrow> lo \<le> n \<and> n \<le> hi"
  by (simp add: isInt_def int_literal_toString)

lemma isInt_iff: "isInt lo hi s \<longleftrightarrow> (\<exists>v. int_literal s = Some v \<and> lo \<le> v \<and> v \<le> hi)"
  by (simp add: isInt_def split: option.splits)





text \<open>
  C8. A limit that is not an integer literal between 1 and 50, a months value that is not
  one between 1 and 24, and a period that is not one of the four names are answered with the
  validation failure while the store is left as it was, no query counted; the decimal
  rendering of a number passes exactly when the number is in range; and an absent
  parameter gives the defaults, limit 10 and 6 months.
\<close>

theorem validation_before_query:
  "(\<not> isInt 1 50 s \<longrightarrow>
      companies_handler now uid (Some s) d = (ValidationFailed [''Limit must be between 1 and 50''], d)) \<and>
   (\<not> isInt 1 24 s \<longrightarrow>
      timeline_handler now uid (Some s) d = (ValidationFailed [''Months must be between 1 and 24''], d)) \<and>
   (s \<notin> set period_names \<longrightarrow>
      trends_handler now dateExpr uid (Some s) d =
        (ValidationFailed [''Period must be week, month, quarter, or year''], d)) \<and>
   (isInt lo hi s \<longleftrightarrow> (\<exists>v. int_literal s = Some v \<and> lo \<le> v \<and> v \<le> hi)) \<and>
   (isInt lo hi (toString n) \<longleftrightarrow> lo \<le> n \<and> n \<le> hi) \<and>
   companies_handler now uid None d =
     (Success (map company_with_rate (companies_pipeline now uid 10 (jobs d))),
      d\<lparr>queries := Suc (queries d)\<rparr>) \<and>
   timeline_handler now uid None d =
     (Success (map format_timeline (timeline_pipeline uid (setMonth now (getMonth now - 6)) (jobs d))),
      d\<lparr>queries := Suc (queries d)\<rparr>)"
proof -
  have c: "\<not> isInt 1 50 s \<longrightarrow>
      companies_handler now uid (Some s) d = (ValidationFailed [''Limit must be between 1 and 50''], d)"
    by (simp add: companies_handler_def validate_optional_def)
  have t: "\<not> isInt 1 24 s \<longrightarrow>
      timeline_handler now uid (Some s) d = (ValidationFailed [''Months must be between 1 and 24''], d)"
    by (simp add: timeline_handler_def validate_optional_def)
  have r: "s \<notin> set period_names \<longrightarrow>
      trends_handler now dateExpr uid (Some s) d =
        (ValidationFailed [''Period must be week, month, quarter, or year''], d)"
    by (simp add: trends_handler_def validate_optional_def period_names_def)
  have p: "param_ok valid None" for valid :: "string \<Rightarrow> bool" by (simp add: param_ok_def)
  have dc: "companies_handler now uid None d =
     (Success (map company_with_rate (companies_pipeline now uid 10 (jobs d))),
      d\<lparr>queries := Suc (queries d)\<rparr>)"
    by (simp add: companies_response[OF p] parseInt_def or_default_def)
  have dt: "timeline_handler now uid None d =
     (Success (map format_timeline (timeline_pipeline uid (setMonth now (getMonth now - 6)) (jobs d))),
      d\<lparr>queries := Suc (queries d)\<rparr>)"
    by (simp add: timeline_response[OF p] parseInt_def or_default_def)
  show ?thesis using c t r isInt_iff[of lo hi s] isInt_toString[of lo hi n] dc dt by blast
qed

theorem validation_before_query_witness:
  "\<not> isInt 1 50 ''51'' \<and> \<not> isInt 1 24 ''51'' \<and> ''51'' \<notin> set period_names \<and>
   companies_handler 0 7 (Some ''51'') ex_db =
     (ValidationFailed [''Limit must be between 1 and 50''], ex_db) \<and>
   timeline_handler 0 7 (Some ''51'') ex_db =
     (ValidationFailed [''Months must be between 1 and 24''], ex_db) \<and>
   trends_handler 0 (\<lambda>dateFormat. month_of) 7 (Some ''51'') ex_db =
     (ValidationFailed [''Period must be week, month, quarter, or year''], ex_db)"
proof -
  have h1: "\<not> isInt 1 50 ''51''"
    by (simp add: isInt_def unsigned_literal_def is_digit_def digits_value_def digit_val_def)
  have h2: "\<not> isInt 1 24 ''51''"
    by (simp add: isInt_def unsigned_literal_def is_digit_def digits_value_def digit_val_def)
  have h3: "''51'' \<notin> set period_names"
    by (simp add: period_names_def)
  show ?thesis
    using h1 h2 h3
      validation_before_query[of "''51''" 0 7 ex_db "\<lambda>dateFormat. month_of" 1 50 51]
    by blast
qed

section \<open>Adding an interview\<close>

lemma find_save_doc:
  "find (\<lambda>j. job_id j = jid) js = Some job \<Longrightarrow> job_id j' = jid \<Longrightarrow>
   find (\<lambda>j. job_id j = jid) (save_doc j' js) = Some j'"
  by (induction js) (auto split: if_splits)

lemma find_job_id: "find (\<lambda>j. job_id j = jid) js = Some job \<Longrightarrow> job_id job = jid"
  by (induction js) (auto split: if_splits)

lemma pre_save_keeps: "status (pre_save now j) = status j \<and> interviewDates (pre_save now j) = interviewDates j
    \<and> job_id (pre_save now j) = job_id j \<and> user (pre_save now j) = user j"
  by (simp add: pre_save_def)

text \<open>
  C10. Adding an interview to an owned job with a valid body succeeds; the stored job then
  has status interviewing when it was applied before, and its former status otherwise.
\<close>

theorem add_interview_status:
  assumes "validate_interview isISO8601 body = []"
    and "new_interview toDate body = Some iv"
    and "find (\<lambda>j. job_id j = jid) (jobs d) = Some job"
    and "user job = uid"
  shows "\<exists>job' d'. add_interview_handler isISO8601 toDate now uid jid body d = (Success job', d') \<and>
           status job' = (if status job = Applied then Interviewing else status job) \<and>
           interviewDates job' = interviewDates job @ [iv] \<and>
           find (\<lambda>j. job_id j = jid) (jobs d') = Some job'"
proof -
  let ?job2 = "if status job = Applied then job\<lparr>interviewDates := interviewDates job @ [iv], status := Interviewing\<rparr>
               else job\<lparr>interviewDates := interviewDates job @ [iv]\<rparr>"
  let ?job3 = "pre_save now ?job2"
  have id3: "job_id ?job3 = jid"
    using find_job_id[OF assms(3)] by (simp add: pre_save_keeps)
  have run: "add_interview_handler isISO8601 toDate now uid jid body d =
      (Success ?job3, d\<lparr>queries := Suc (queries d), jobs := save_doc ?job3 (jobs d)\<rparr>)"
    using assms by (simp add: add_interview_handler_def Let_def)
  have "status ?job3 = (if status job = Applied then Interviewing else status job)"
    by (simp add: pre_save_keeps)
  moreover have "interviewDates ?job3 = interviewDates job @ [iv]"
    by (simp add: pre_save_keeps)
  moreover have "find (\<lambda>j. job_id j = jid) (save_doc ?job3 (jobs d)) = Some ?job3"
    using find_save_doc[OF assms(3) id3] .
  ultimately show ?thesis using run by simp
qed

theorem add_interview_status_witness:
  "validate_interview (\<lambda>s. True) ex_body = [] \<and>
   new_interview (\<lambda>s. Some 0) ex_body = Some ex_interview \<and>
   find (\<lambda>j. job_id j = 1) (jobs ex_db) = Some ex_job \<and>
   user ex_job = 7 \<and>
   (\<exists>job' d'. add_interview_handler (\<lambda>s. True) (\<lambda>s. Some 0) 0 7 1 ex_body ex_db = (Success job', d') \<and>
           status job' = (if status ex_job = Applied then Interviewing else status ex_job) \<and>
           interviewDates job' = interviewDates ex_job @ [ex_interview] \<and>
           find (\<lambda>j. job_id j = 1) (jobs d') = Some job')"
proof -
  have h1: "validate_interview (\<lambda>s. True) ex_body = []"
    by (simp add: validate_interview_def validate_required_def validate_optional_def ex_body_def)
  have h2: "new_interview (\<lambda>s. Some 0) ex_body = Some ex_interview"
    by (simp add: new_interview_def ex_body_def type_of_name_def outcome_of_name_def
        ex_interview_def)
  have h3: "find (\<lambda>j. job_id j = 1) (jobs ex_db) = Some ex_job"
    by (simp add: ex_db_def ex_job_def)
  have h4: "user ex_job = 7"
    by (simp add: ex_job_def)
  show ?thesis
    using h1 h2 h3 h4 add_interview_status[OF h1 h2 h3 h4, of 0] by blast
qed

lemma add_interview_success_only:
  assumes "fst (add_interview_handler isISO8601 toDate now uid jid body d) = Success job'"
  shows "validate_interview isISO8601 body = [] \<and> (\<exists>iv. new_interview toDate body = Some iv) \<and>
         (\<exists>job. find (\<lambda>j. job_id j = jid) (jobs d) = Some job \<and> user job = uid)"
  using assms by (auto simp: add_interview_handler_def Let_def split: if_splits option.splits)

section \<open>Rounding and rates\<close>


lemma pct_num: "0 < b \<Longrightarrow> pct (num a) (num b) = Number (round_half_up_2 (percent a b))"
  by (simp add: pct_def num_def round_half_up_2_def percent_def)

lemma floor_half: "\<lfloor>1 / 2 :: rat\<rfloor> = 0"
  by (simp add: floor_eq_iff)







section \<open>Groups sorted by descending count\<close>

lemma distinct_map_sort_key: "distinct (map f xs) \<Longrightarrow> distinct (map f (sort_key k xs))"
  by (simp add: distinct_map)




section \<open>The companies and the locations view\<close>










section \<open>The interview performance view\<close>

lemma perf_init_entry: "perf_init = perf_entry 0 0 0 0"
  by (simp add: perf_init_def perf_entry_def)

lemma perf_entry_total: "to_number (perf_entry t p f pe ''total'') = num t"
  by (simp add: perf_entry_def to_number_def)

lemma js_add_num: "js_add (num a) (num b) = num (a + b)"
  by (simp add: num_def)

lemma perf_entry_update:
  "(perf_entry t p f pe)(''total'' \<mapsto> num t', outcome_name oc \<mapsto> num c) =
     perf_entry t' (if oc = Passed then c else p) (if oc = Failed then c else f)
       (if oc = Pending then c else pe)"
  by (cases oc) (auto simp: perf_entry_def fun_eq_iff)

lemma perf_step_apply:
  "perf_step ip ((t, oc), c) ty =
     (if ty = t
      then Some ((case ip t of None \<Rightarrow> perf_init | Some e \<Rightarrow> e)
             (''total'' \<mapsto> js_add (to_number ((case ip t of None \<Rightarrow> perf_init | Some e \<Rightarrow> e) ''total'')) (num c),
              outcome_name oc \<mapsto> num c))
      else ip ty)"
  by (simp add: perf_step_def Let_def)

lemma map_of_snoc_fresh:
  assumes "k0 \<notin> fst ` set ivs"
  shows "map_of (ivs @ [(k0, c)]) k = (if k = k0 then Some c else map_of ivs k)"
proof -
  have "map_of ivs k0 = None" using assms by (rule map_of_eq_None_iff[THEN iffD2])
  then show ?thesis by (auto simp: map_add_def split: option.splits)
qed

lemma cntf_snoc:
  assumes "(t, oc) \<notin> fst ` set ivs"
  shows "cntf (ivs @ [((t, oc), c)]) ty o' = (if ty = t \<and> o' = oc then c else cntf ivs ty o')"
  unfolding cntf_def map_of_snoc_fresh[OF assms] by simp

lemma cntf_absent:
  assumes "(t, oc) \<notin> fst ` set ivs"
  shows "cntf ivs t oc = 0"
proof -
  have "map_of ivs (t, oc) = None" using assms by (rule map_of_eq_None_iff[THEN iffD2])
  then show ?thesis by (simp add: cntf_def)
qed

lemma outcome_cases: "oc = Passed \<or> oc = Failed \<or> oc = Pending"
  by (cases oc) auto

lemma perf_fold:
  "distinct (map fst ivs) \<Longrightarrow>
   foldl perf_step Map.empty ivs ty =
     (if ty \<in> fst ` fst ` set ivs
      then Some (perf_entry (cntf ivs ty Passed + cntf ivs ty Failed + cntf ivs ty Pending)
             (cntf ivs ty Passed) (cntf ivs ty Failed) (cntf ivs ty Pending))
      else None)"
proof (induction ivs arbitrary: ty rule: rev_induct)
  case Nil
  then show ?case by simp
next
  case (snoc x ivs)
  obtain t oc c where x: "x = ((t, oc), c)" by (cases x) auto
  from snoc.prems have d: "distinct (map fst ivs)" and nk: "(t, oc) \<notin> fst ` set ivs"
    by (auto simp: x)
  note IH = snoc.IH[OF d]
  let ?ip = "foldl perf_step Map.empty ivs"
  let ?T = "\<lambda>ty. cntf ivs ty Passed + cntf ivs ty Failed + cntf ivs ty Pending"
  have absent: "cntf ivs ty' o' = 0" if "ty' \<notin> fst ` fst ` set ivs" for ty' o'
  proof -
    from that have "(ty', o') \<notin> fst ` set ivs" by force
    then show ?thesis by (rule cntf_absent)
  qed
  have e: "(case ?ip t of None \<Rightarrow> perf_init | Some e \<Rightarrow> e) =
      perf_entry (?T t) (cntf ivs t Passed) (cntf ivs t Failed) (cntf ivs t Pending)"
  proof (cases "t \<in> fst ` fst ` set ivs")
    case True
    then show ?thesis by (simp add: IH)
  next
    case False
    then show ?thesis by (simp add: IH absent perf_init_entry)
  qed
  have z: "cntf ivs t oc = 0" using nk by (rule cntf_absent)
  show ?case
  proof (cases "ty = t")
    case True
    have "foldl perf_step Map.empty (ivs @ [x]) t =
        Some (perf_entry (?T t + c) (if oc = Passed then c else cntf ivs t Passed)
               (if oc = Failed then c else cntf ivs t Failed)
               (if oc = Pending then c else cntf ivs t Pending))"
      by (simp add: x perf_step_apply e perf_entry_total js_add_num perf_entry_update
          del: fun_upd_apply)
    moreover have "t \<in> fst ` fst ` set (ivs @ [x])" by (force simp: x)
    ultimately show ?thesis
      using z outcome_cases[of oc] by (auto simp: True x cntf_snoc[OF nk] ac_simps)
  next
    case False
    have "foldl perf_step Map.empty (ivs @ [x]) ty = ?ip ty"
      using False by (simp add: x perf_step_apply)
    moreover have "(ty \<in> fst ` fst ` set (ivs @ [x])) = (ty \<in> fst ` fst ` set ivs)"
      using False by (auto simp: x)
    ultimately show ?thesis
      using False by (simp add: IH x cntf_snoc[OF nk])
  qed
qed

lemma concat_nonempty_only:
  "concat (map f (filter (\<lambda>j. P j \<and> f j \<noteq> []) js)) = concat (map f (filter P js))"
  by (induction js) auto

lemma interviews_pipeline_entries:
  "interviews_pipeline uid js =
     sort_key (\<lambda>(k, c). (type_name (fst k), outcome_name (snd k)))
       (map (\<lambda>(k, g). (k, length g))
         (group_by (\<lambda>i. (i_type i, i_outcome i)) (interview_entries uid js)))"
  by (simp add: interviews_pipeline_def interview_entries_def owned_by_def concat_nonempty_only)

lemma map_of_sort_key:
  assumes "distinct (map fst xs)"
  shows "map_of (sort_key f xs) = map_of xs"
proof -
  have "distinct (map fst (sort_key f xs))" using assms by (simp add: distinct_map)
  then show ?thesis using assms by (simp add: map_of_inject_set)
qed

lemma interviews_pipeline_props:
  fixes uid js
  defines "es \<equiv> interview_entries uid js"
  defines "ivs \<equiv> interviews_pipeline uid js"
  shows "distinct (map fst ivs)"
    and "cntf ivs ty oc = length (entries_with ty oc es)"
    and "ty \<in> fst ` fst ` set ivs \<longleftrightarrow> entries_of_type ty es \<noteq> []"
proof -
  let ?key = "\<lambda>i. (i_type i, i_outcome i)"
  let ?gs = "map (\<lambda>(k, g). (k, length g)) (group_by ?key es)"
  have ivs: "ivs = sort_key (\<lambda>(k, c). (type_name (fst k), outcome_name (snd k))) ?gs"
    by (simp add: ivs_def es_def interviews_pipeline_entries)
  have d: "distinct (map fst ?gs)"
    by (simp only: fst_group_counts group_keys_distinct)
  show "distinct (map fst ivs)"
    unfolding ivs by (rule distinct_map_sort_key[OF d])
  have m: "map_of ivs = map_of ?gs"
    unfolding ivs by (rule map_of_sort_key[OF d])
  have f: "filter (\<lambda>x. ?key x = (ty, oc)) es = entries_with ty oc es"
    by (simp add: entries_with_def)
  show "cntf ivs ty oc = length (entries_with ty oc es)"
  proof (cases "(ty, oc) \<in> ?key ` set es")
    case True
    then show ?thesis
      unfolding cntf_def m map_of_group_counts by (simp add: entries_with_def)
  next
    case False
    then have "entries_with ty oc es = []"
      by (auto simp: entries_with_def filter_empty_conv)
    then show ?thesis using False
      unfolding cntf_def m map_of_group_counts by simp
  qed
  have "fst ` set ivs = fst ` set ?gs" unfolding ivs by simp
  also have "\<dots> = set (map fst ?gs)" by (simp only: set_map)
  also have "\<dots> = ?key ` set es" by (simp only: fst_group_counts set_map group_keys_set)
  finally have "fst ` fst ` set ivs = i_type ` set es" by (simp add: image_image)
  then show "ty \<in> fst ` fst ` set ivs \<longleftrightarrow> entries_of_type ty es \<noteq> []"
    by (auto simp: entries_of_type_def filter_empty_conv)
qed

lemma entries_by_outcome:
  "length (entries_of_type ty es) =
     length (entries_with ty Passed es) + length (entries_with ty Failed es) +
     length (entries_with ty Pending es)"
proof (induction es)
  case Nil
  then show ?case by (simp add: entries_of_type_def entries_with_def)
next
  case (Cons i es)
  then show ?case
    by (cases "i_outcome i") (simp_all add: entries_of_type_def entries_with_def)
qed


lemma with_successRate_entry:
  "with_successRate (perf_entry t p f pe) =
     [''total'' \<mapsto> num t, ''passed'' \<mapsto> num p, ''failed'' \<mapsto> num f, ''pending'' \<mapsto> num pe,
      ''successRate'' \<mapsto> (if 0 < t then Number (round_half_up_2 (percent p t)) else num 0)]"
proof -
  have a: "to_number (perf_entry t p f pe ''total'') = num t"
    and b: "to_number (perf_entry t p f pe ''passed'') = num p"
    by (simp_all add: perf_entry_def to_number_def)
  have g: "js_gt0 (num t) = (0 < t)" by (simp add: num_def)
  show ?thesis
    unfolding with_successRate_def a b g by (simp add: perf_entry_def pct_num)
qed

lemma interview_performance_entry:
  fixes uid js
  defines "es \<equiv> interview_entries uid js"
  defines "ip \<equiv> interviewPerformance (interviews_pipeline uid js)"
  shows "ip ty = (if entries_of_type ty es = [] then None
               else Some [''total'' \<mapsto> num (length (entries_of_type ty es)),
                      ''passed'' \<mapsto> num (length (entries_with ty Passed es)),
                      ''failed'' \<mapsto> num (length (entries_with ty Failed es)),
                      ''pending'' \<mapsto> num (length (entries_with ty Pending es)),
                      ''successRate'' \<mapsto> Number (round_half_up_2
                         (percent (length (entries_with ty Passed es)) (length (entries_of_type ty es))))])"
proof -
  define ivs where "ivs = interviews_pipeline uid js"
  note pp = interviews_pipeline_props[where uid = uid and js = js, folded es_def ivs_def]
  show ?thesis
  proof (cases "entries_of_type ty es = []")
    case True
    then have "ty \<notin> fst ` fst ` set ivs" using pp(3) by simp
    then have "ip ty = None"
      by (simp add: ip_def ivs_def[symmetric] interviewPerformance_def perf_fold[OF pp(1)])
    then show ?thesis using True by simp
  next
    case False
    let ?n = "length (entries_of_type ty es)"
    let ?p = "length (entries_with ty Passed es)"
    let ?f = "length (entries_with ty Failed es)"
    let ?pe = "length (entries_with ty Pending es)"
    have n: "?n = ?p + ?f + ?pe" by (rule entries_by_outcome)
    have pos: "0 < ?n" using False by simp
    have "ty \<in> fst ` fst ` set ivs" using False pp(3) by simp
    then have "foldl perf_step Map.empty ivs ty = Some (perf_entry ?n ?p ?f ?pe)"
      by (simp add: perf_fold[OF pp(1)] pp(2) n)
    then have "ip ty = Some (with_successRate (perf_entry ?n ?p ?f ?pe))"
      by (simp add: ip_def ivs_def[symmetric] interviewPerformance_def)
    then show ?thesis
      using False pos
      by (simp only: with_successRate_entry if_True if_False simp_thms)
  qed
qed


section \<open>Division by zero\<close>

lemma round2_finite: "is_finite x \<Longrightarrow> is_finite (round2 x)"
  by (cases x) (simp_all add: round2_def num_def)

lemma successRate_finite: "is_finite (successRate n ss)"
  by (simp add: successRate_def num_def)

lemma pct_num_finite: "0 < b \<Longrightarrow> is_finite (pct (num a) (num b))"
  by (simp add: pct_num)

lemma num_finite: "is_finite (num n)"
  by (simp add: num_def)

lemma company_row_finite:
  "is_finite (c_successRate (company_with_rate c)) \<and>
   is_finite (c_avgDaysSinceApplication (company_with_rate c))"
  by (simp add: company_with_rate_def round2_finite successRate_finite null_to_number_def
      split: option.splits)

lemma location_row_finite: "is_finite (l_successRate (location_with_rate l))"
  by (simp add: location_with_rate_def round2_finite successRate_finite)

lemma trend_row_finite:
  "is_finite (t_applicationToInterviewRate (trend_with_conversion t)) \<and>
   is_finite (t_interviewToOfferRate (trend_with_conversion t)) \<and>
   is_finite (t_overallSuccessRate (trend_with_conversion t))"
  by (simp add: trend_with_conversion_def Let_def pct_num_finite num_finite)

lemma company_zero_total: "c_totalApplications (company_with_rate c) = 0 \<Longrightarrow> c_successRate (company_with_rate c) = Number 0"
  by (simp add: company_with_rate_def successRate_def round2_def num_def floor_half)

lemma location_zero_total: "l_totalApplications (location_with_rate l) = 0 \<Longrightarrow> l_successRate (location_with_rate l) = Number 0"
  by (simp add: location_with_rate_def successRate_def round2_def num_def floor_half)

lemma interview_zero_total:
  "to_number (e ''total'') = Number 0 \<Longrightarrow> with_successRate e ''successRate'' = Some (Number 0)"
  by (simp add: with_successRate_def num_def)

lemma trend_zero_total:
  "t_totalApplications (trend_with_conversion t) = 0 \<Longrightarrow> t_applicationToInterviewRate (trend_with_conversion t) = Number 0 \<and>
     t_overallSuccessRate (trend_with_conversion t) = Number 0"
  by (simp add: trend_with_conversion_def Let_def num_def)

lemma trend_zero_interviewing:
  "t_interviewing (trend_with_conversion t) = 0 \<Longrightarrow> t_interviewToOfferRate (trend_with_conversion t) = Number 0"
  by (simp add: trend_with_conversion_def Let_def num_def filter_empty_conv)

lemma companies_success_rows:
  "fst (companies_handler now uid limit_q d) = Success rows \<Longrightarrow> \<exists>gs. rows = map company_with_rate gs"
  by (auto simp: companies_handler_def Let_def aggregate_def split: if_splits)

lemma trends_success_rows:
  "fst (trends_handler now dateExpr uid period_q d) = Success (p, rows) \<Longrightarrow>
     \<exists>gs. rows = map trend_with_conversion gs"
  by (auto simp: trends_handler_def Let_def aggregate_def split: if_splits option.splits prod.splits)

lemma stats_keys: "k \<in> dom statsObj_init \<Longrightarrow> k = ''total'' \<or> (\<exists>s. k = status_name s)"
proof -
  assume "k \<in> dom statsObj_init"
  then have "k \<in> {''total'', status_name Applied, status_name Interviewing, status_name Offered,
      status_name Rejected, status_name Withdrawn}"
    by (simp add: dom_statsObj_init)
  then show ?thesis by blast
qed

lemma stats_values_finite:
  assumes "fst (stats_handler uid d) = Success obj" and "obj k = Some v"
  shows "is_finite v"
proof -
  let ?mine = "owned_by uid (jobs d)"
  let ?stats = "map (\<lambda>(k, g). (k, length g)) (group_by status ?mine)"
  have obj: "obj = foldl stats_step statsObj_init ?stats"
    using assms(1) by (simp add: stats_response)
  have dist: "distinct (map fst ?stats)"
    by (simp only: fst_group_counts group_keys_distinct)
  have t0: "statsObj_init ''total'' = Some (Number 0)"
    by (simp add: statsObj_init_def num_def)
  note F = stats_fold[OF dist t0 refl, folded obj]
  have "k \<in> dom statsObj_init" using F assms(2) by blast
  then consider "k = ''total''" | s where "k = status_name s" using stats_keys by blast
  then show ?thesis
  proof cases
    case 1
    then show ?thesis using F assms(2) by auto
  next
    case 2
    then have "obj k = (case map_of ?stats s of None \<Rightarrow> statsObj_init (status_name s) | Some c \<Rightarrow> Some (num c))"
      using F by simp
    then show ?thesis using assms(2)
      by (auto simp: statsObj_init_status num_def split: option.splits)
  qed
qed

lemma interview_values_finite:
  assumes "fst (interviews_handler uid d) = Success ip" and "ip ty = Some e" and "e k = Some v"
  shows "is_finite v"
proof -
  have ip: "ip = interviewPerformance (interviews_pipeline uid (jobs d))"
    using assms(1) by (simp add: interviews_response)
  note c = interview_performance_entry[where uid = uid and js = "jobs d" and ty = ty, folded ip]
  from c assms(2) obtain t p f pe r where "e = [''total'' \<mapsto> num t, ''passed'' \<mapsto> num p,
      ''failed'' \<mapsto> num f, ''pending'' \<mapsto> num pe, ''successRate'' \<mapsto> Number r]"
    by (auto split: if_splits)
  then show ?thesis using assms(3) by (auto simp: num_def split: if_splits)
qed

text \<open>
  C6. Every rate is guarded against a zero denominator. A company or location row whose
  total is 0, an interview entry whose total is 0 and a trend row whose total or whose
  interviewing count is 0 report the rate 0 for that denominator; and every number in a
  response of stats, companies, locations, interviews and trends is finite, neither NaN
  nor an infinity.
\<close>

theorem rates_guard_division_by_zero:
  "(c_totalApplications (company_with_rate c) = 0 \<longrightarrow> c_successRate (company_with_rate c) = Number 0) \<and>
   (l_totalApplications (location_with_rate l) = 0 \<longrightarrow> l_successRate (location_with_rate l) = Number 0) \<and>
   (to_number (e ''total'') = Number 0 \<longrightarrow> with_successRate e ''successRate'' = Some (Number 0)) \<and>
   (t_totalApplications (trend_with_conversion t) = 0 \<longrightarrow> t_applicationToInterviewRate (trend_with_conversion t) = Number 0 \<and>
      t_overallSuccessRate (trend_with_conversion t) = Number 0) \<and>
   (t_interviewing (trend_with_conversion t) = 0 \<longrightarrow> t_interviewToOfferRate (trend_with_conversion t) = Number 0) \<and>
   (\<forall>obj k v. fst (stats_handler uid d) = Success obj \<longrightarrow> obj k = Some v \<longrightarrow> is_finite v) \<and>
   (\<forall>rows. fst (companies_handler now uid limit_q d) = Success rows \<longrightarrow>
      (\<forall>r\<in>set rows. is_finite (c_successRate r) \<and> is_finite (c_avgDaysSinceApplication r))) \<and>
   (\<forall>rows. fst (locations_handler uid d) = Success rows \<longrightarrow>
      (\<forall>r\<in>set rows. is_finite (l_successRate r))) \<and>
   (\<forall>ip ty e' k v. fst (interviews_handler uid d) = Success ip \<longrightarrow> ip ty = Some e' \<longrightarrow>
      e' k = Some v \<longrightarrow> is_finite v) \<and>
   (\<forall>p rows. fst (trends_handler now dateExpr uid period_q d) = Success (p, rows) \<longrightarrow>
      (\<forall>r\<in>set rows. is_finite (t_applicationToInterviewRate r) \<and>
         is_finite (t_interviewToOfferRate r) \<and> is_finite (t_overallSuccessRate r)))"
proof -
  have c: "\<forall>rows. fst (companies_handler now uid limit_q d) = Success rows \<longrightarrow>
      (\<forall>r\<in>set rows. is_finite (c_successRate r) \<and> is_finite (c_avgDaysSinceApplication r))"
    using companies_success_rows[of now uid limit_q d] company_row_finite by fastforce
  have l: "\<forall>rows. fst (locations_handler uid d) = Success rows \<longrightarrow>
      (\<forall>r\<in>set rows. is_finite (l_successRate r))"
    using location_row_finite by (auto simp: locations_response)
  have t: "\<forall>p rows. fst (trends_handler now dateExpr uid period_q d) = Success (p, rows) \<longrightarrow>
      (\<forall>r\<in>set rows. is_finite (t_applicationToInterviewRate r) \<and>
         is_finite (t_interviewToOfferRate r) \<and> is_finite (t_overallSuccessRate r))"
    using trends_success_rows[of now dateExpr uid period_q d] trend_row_finite by fastforce
  have s: "\<forall>obj k v. fst (stats_handler uid d) = Success obj \<longrightarrow> obj k = Some v \<longrightarrow> is_finite v"
    using stats_values_finite by blast
  have i: "\<forall>ip ty e' k v. fst (interviews_handler uid d) = Success ip \<longrightarrow> ip ty = Some e' \<longrightarrow>
      e' k = Some v \<longrightarrow> is_finite v"
    using interview_values_finite by blast
  show ?thesis
    apply (intro conjI impI)
    using company_zero_total location_zero_total interview_zero_total trend_zero_total
      trend_zero_interviewing s c l i t
    by blast+
qed

theorem rates_guard_division_by_zero_witness:
  "c_totalApplications (company_with_rate ex_empty_company) = 0 \<and>
   l_totalApplications (location_with_rate (ex_empty_group (Some ''Kigali''))) = 0 \<and>
   to_number (perf_init ''total'') = Number 0 \<and>
   t_totalApplications (trend_with_conversion (ex_empty_group 1)) = 0 \<and>
   t_interviewing (trend_with_conversion (ex_empty_group 1)) = 0 \<and>
   c_successRate (company_with_rate ex_empty_company) = Number 0 \<and>
   l_successRate (location_with_rate (ex_empty_group (Some ''Kigali''))) = Number 0 \<and>
   with_successRate perf_init ''successRate'' = Some (Number 0) \<and>
   t_applicationToInterviewRate (trend_with_conversion (ex_empty_group 1)) = Number 0 \<and>
   t_overallSuccessRate (trend_with_conversion (ex_empty_group 1)) = Number 0 \<and>
   t_interviewToOfferRate (trend_with_conversion (ex_empty_group 1)) = Number 0"
proof -
  have h1: "c_totalApplications (company_with_rate ex_empty_company) = 0"
    by (simp add: company_with_rate_def ex_empty_company_def)
  have h2: "l_totalApplications (location_with_rate (ex_empty_group (Some ''Kigali''))) = 0"
    by (simp add: location_with_rate_def ex_empty_group_def)
  have h3: "to_number (perf_init ''total'') = Number 0"
    by (simp add: perf_init_def to_number_def num_def)
  have h4: "t_totalApplications (trend_with_conversion (ex_empty_group 1)) = 0"
    by (simp add: trend_with_conversion_def ex_empty_group_def)
  have h5: "t_interviewing (trend_with_conversion (ex_empty_group 1)) = 0"
    by (simp add: trend_with_conversion_def ex_empty_group_def)
  show ?thesis
    using h1 h2 h3 h4 h5
      rates_guard_division_by_zero[of ex_empty_company "ex_empty_group (Some ''Kigali'')" perf_init
        "ex_empty_group 1" 7 ex_db 0 None "\<lambda>dateFormat. month_of" None]
    by blast
qed

section \<open>The rounding rule\<close>








section \<open>The calendar month of a date\<close>





section \<open>The timeline view\<close>




















section \<open>Worked examples\<close>

text \<open>
  The calendar on a few dates, and the views on small stores: three records with three
  statuses, a company with an offered and a rejected record, a record with three phone
  interviews, and a record applied for on the first of January 1970.
\<close>

lemma calendar_examples:
  "civil_from_days 0 = (1970, 1, 1)"
  "civil_from_days (- 1) = (1969, 12, 31)"
  "civil_from_days (days_from_civil 2024 2 29) = (2024, 2, 29)"
  "civil_from_days (MakeDay 2024 1 31) = (2024, 3, 2)"
  "civil_from_days (MakeDay 2024 (- 1) 31) = (2023, 12, 31)"
  by code_simp+

lemma stats_example:
  "fields_of (data_of (fst (stats_handler 7 ex_three)))
     [''total'', ''applied'', ''interviewing'', ''offered'', ''rejected'', ''withdrawn''] =
   [Some (Number 3), Some (Number 1), Some (Number 1), Some (Number 1), Some (Number 0),
    Some (Number 0)]"
  by code_simp

lemma company_example:
  "map_option (map (\<lambda>r. (c_company r, c_totalApplications r, c_successRate r)))
     (data_of (fst (companies_handler 0 7 None ex_acme))) = Some [(''Acme'', 2, Number 50)]"
  by code_simp

lemma interview_example:
  "fields_of (case data_of (fst (interviews_handler 7 ex_phone)) of None \<Rightarrow> None | Some ip \<Rightarrow> ip Phone)
     [''total'', ''passed'', ''failed'', ''pending'', ''successRate''] =
   [Some (Number 3), Some (Number 2), Some (Number 0), Some (Number 1), Some (Number (6667 / 100))]"
  by code_simp

lemma timeline_example:
  "map_option (map (\<lambda>r. (tl_period r, tl_total r, tl_statuses r Applied)))
     (data_of (fst (timeline_handler 0 7 None ex_db))) = Some [(''1970-01'', 1, Some 1)]"
  by code_simp

end
